theory Spec2Isabelle
  imports Main "HOL-Library.Word"
begin

section \<open>JavaScript values, objects and errors\<close>

text \<open>
  Messages, payloads and credentials are JSON values. An object is its list of
  properties in insertion order; numbers are the integers the protocol uses.
\<close>

datatype jsval =
    JUndefined
  | JNull
  | JBool bool
  | JNum int
  | JStr string
  | JArr "jsval list"
  | JObj "(string \<times> jsval) list"

type_synonym props = "(string \<times> jsval) list"

text \<open>What \<open>!v\<close> and \<open>v || d\<close> test.\<close>

fun truthy :: "jsval \<Rightarrow> bool" where
  "truthy JUndefined = False"
| "truthy JNull = False"
| "truthy (JBool b) = b"
| "truthy (JNum n) = (n \<noteq> 0)"
| "truthy (JStr s) = (s \<noteq> [])"
| "truthy (JArr xs) = True"
| "truthy (JObj ps) = True"

text \<open>Property read \<open>o.k\<close>: \<open>undefined\<close> when the property is absent.\<close>

fun obj_get :: "props \<Rightarrow> string \<Rightarrow> jsval" where
  "obj_get [] k = JUndefined"
| "obj_get ((k', v) # ps) k = (if k' = k then v else obj_get ps k)"

text \<open>
  Property write in an object literal: an existing key keeps its position and takes
  the new value, a new key is appended.
\<close>

fun obj_set :: "props \<Rightarrow> string \<Rightarrow> jsval \<Rightarrow> props" where
  "obj_set [] k v = [(k, v)]"
| "obj_set ((k', v') # ps) k v =
     (if k' = k then (k, v) # ps else (k', v') # obj_set ps k v)"

text \<open>\<open>{...base, ...ext}\<close>: the properties of \<open>ext\<close> are written one by one.\<close>

fun spread :: "props \<Rightarrow> props \<Rightarrow> props" where
  "spread base [] = base"
| "spread base ((k, v) # ext) = spread (obj_set base k v) ext"

text \<open>
  Thrown values. The messages of the source are Portuguese; they are written here
  without their diacritics.
\<close>

datatype js_error =
    Error string
  | TypeError string
  | ReferenceError string
  | SyntaxError string

section \<open>Buffers and their hexadecimal text\<close>

type_synonym buffer = "8 word list"

definition hex_digit :: "nat \<Rightarrow> char" where
  "hex_digit n = ''0123456789abcdef'' ! (n mod 16)"

text \<open>\<open>buf.toString('hex')\<close>\<close>

fun hex_encode :: "buffer \<Rightarrow> string" where
  "hex_encode [] = []"
| "hex_encode (b # bs) =
     hex_digit (unat b div 16) # hex_digit (unat b mod 16) # hex_encode bs"

definition hex_val :: "char \<Rightarrow> nat option" where
  "hex_val c =
     (let n = (of_char c :: nat) in
      if 48 \<le> n \<and> n \<le> 57 then Some (n - 48)
      else if 97 \<le> n \<and> n \<le> 102 then Some (n - 87)
      else if 65 \<le> n \<and> n \<le> 70 then Some (n - 55)
      else None)"

text \<open>
  \<open>Buffer.from(text, 'hex')\<close>: pairs of digits are decoded until the first pair
  that is not hexadecimal; a trailing single digit is dropped.
\<close>

fun hex_decode :: "string \<Rightarrow> buffer" where
  "hex_decode (h # l # cs) =
     (case hex_val h of
        None \<Rightarrow> []
      | Some a \<Rightarrow>
          (case hex_val l of
             None \<Rightarrow> []
           | Some b \<Rightarrow> of_nat (16 * a + b) # hex_decode cs))"
| "hex_decode [c] = []"
| "hex_decode [] = []"

section \<open>The platform the server runs on\<close>

text \<open>
  The library functions the code calls are parameters of the model: what
  \<open>JSON.stringify\<close> and \<open>JSON.parse\<close> compute, the digest of
  \<open>crypto.createHmac('sha256', key).update(data)\<close>, whether \<open>new URL(text)\<close> accepts
  a text, the key \<open>crypto.pbkdf2\<close> derives, the digest of
  \<open>crypto.createHash('sha256')\<close> and the cipher of \<open>crypto.createCipher\<close> (with the
  UTF-8 coding of its text side; \<open>None\<close> where \<open>decipher.final\<close> throws).
\<close>

record platform =
  JSON_stringify :: "jsval \<Rightarrow> string"
  JSON_parse :: "string \<Rightarrow> jsval option"
  createHmac_sha256 :: "string \<Rightarrow> string \<Rightarrow> buffer"
  URL_parses :: "string \<Rightarrow> bool"
  pbkdf2_sha256 :: "string \<Rightarrow> buffer \<Rightarrow> nat \<Rightarrow> nat \<Rightarrow> buffer"
  createHash_sha256 :: "string \<Rightarrow> buffer"
  createCipher :: "string \<Rightarrow> buffer \<Rightarrow> string \<Rightarrow> buffer"
  createDecipher :: "string \<Rightarrow> buffer \<Rightarrow> buffer \<Rightarrow> string option"

section \<open>WebhookManager\<close>

text \<open>
  \<open>message.webhook\<close> as a client sends it: an absent property is \<open>None\<close>, an absent
  \<open>headers\<close> object is the empty list.
\<close>

record webhook_input =
  in_url :: string
  in_events :: "string list"
  in_secret :: "string option"
  in_retryAttempts :: "int option"
  in_timeout :: "int option"
  in_headers :: props

text \<open>A stored configuration, the object \<open>registerWebhook\<close> builds.\<close>

record webhook =
  url :: string
  events :: "string list"
  headers :: props
  chatId :: string
  ownerDid :: string
  registeredAt :: string
  secret :: string
  active :: bool
  retryAttempts :: int
  timeout :: int

type_synonym webhooks = "string \<rightharpoonup> webhook"

text \<open>
  \<open>registerWebhook(chatId, ownerDid, webhookConfig)\<close>. \<open>now\<close> is the clock reading and
  \<open>fresh\<close> the text \<open>generateSecret()\<close> draws. Reading \<open>webhookConfig.secret\<close> of an
  absent \<open>webhookConfig\<close> throws. The result is the value returned or thrown, with
  the table afterwards.
\<close>

definition registerWebhook ::
  "string \<Rightarrow> string \<Rightarrow> webhooks \<Rightarrow> string \<Rightarrow> string \<Rightarrow> webhook_input option
     \<Rightarrow> (js_error + webhook) \<times> webhooks" where
  "registerWebhook now fresh whs cid owner webhookConfig =
     (case webhookConfig of
        None \<Rightarrow> (Inl (TypeError ''Cannot read properties of undefined''), whs)
      | Some wc \<Rightarrow>
          (let config =
             \<lparr> url = in_url wc,
               events = in_events wc,
               headers = in_headers wc,
               chatId = cid,
               ownerDid = owner,
               registeredAt = now,
               secret = (case in_secret wc of
                           None \<Rightarrow> fresh
                         | Some s \<Rightarrow> if s \<noteq> [] then s else fresh),
               active = True,
               retryAttempts = (case in_retryAttempts wc of
                                  None \<Rightarrow> 3
                                | Some n \<Rightarrow> if n \<noteq> 0 then n else 3),
               timeout = (case in_timeout wc of
                            None \<Rightarrow> 5000
                          | Some t \<Rightarrow> if t \<noteq> 0 then t else 5000) \<rparr>
           in (Inr config, whs(cid \<mapsto> config))))"

text \<open>\<open>canConfigureWebhook(chatId, did)\<close>; no code of the repository calls it.\<close>

definition canConfigureWebhook :: "webhooks \<Rightarrow> string \<Rightarrow> string \<Rightarrow> bool" where
  "canConfigureWebhook whs cid did =
     (case whs cid of None \<Rightarrow> True | Some w \<Rightarrow> ownerDid w = did)"

text \<open>\<open>removeWebhook(chatId, requestingDid)\<close>\<close>

definition removeWebhook ::
  "webhooks \<Rightarrow> string \<Rightarrow> string \<Rightarrow> (js_error + bool) \<times> webhooks" where
  "removeWebhook whs cid requestingDid =
     (case whs cid of
        None \<Rightarrow> (Inl (Error ''Webhook nao encontrado''), whs)
      | Some w \<Rightarrow>
          if ownerDid w \<noteq> requestingDid
          then (Inl (Error ''Apenas o dono da sala pode remover o webhook''), whs)
          else (Inr True, whs(cid := None)))"

text \<open>\<open>generateSignature(data, secret)\<close>: the digest in hexadecimal.\<close>

definition generateSignature :: "platform \<Rightarrow> string \<Rightarrow> string \<Rightarrow> string" where
  "generateSignature P data sec = hex_encode (createHmac_sha256 P sec data)"

text \<open>
  An HTTP request as \<open>sendWebhookRequest\<close> issues it, and what becomes of a request:
  a response with a status code, a socket error, or no answer within the timeout.
  The endpoint is the outcome of each request it receives, counted from 0; the log
  is the list of requests issued so far.
\<close>

record http_request =
  req_url :: string
  req_method :: string
  req_headers :: props
  req_timeout :: int
  req_body :: string

datatype http_outcome = Status int | SocketError | NoAnswer

type_synonym endpoint = "nat \<Rightarrow> http_outcome"

text \<open>
  \<open>sendWebhookRequest(webhook, payload)\<close>: the promise resolves (\<open>Inr\<close>, the status
  code) or rejects (\<open>Inl\<close>). \<open>new URL\<close> throws inside the executor before any request
  exists. The configured headers are spread last into the header object.
\<close>

definition sendWebhookRequest ::
  "platform \<Rightarrow> endpoint \<Rightarrow> webhook \<Rightarrow> jsval \<Rightarrow> http_request list
     \<Rightarrow> (js_error + int) \<times> http_request list" where
  "sendWebhookRequest P ep w payload log =
     (let jsonPayload = JSON_stringify P payload;
          signature = generateSignature P jsonPayload (secret w)
      in if \<not> URL_parses P (url w) then (Inl (TypeError ''Invalid URL''), log)
         else
           (let req =
              \<lparr> req_url = url w,
                req_method = ''POST'',
                req_headers =
                  spread
                    [(''Content-Type'', JStr ''application/json''),
                     (''Content-Length'', JNum (int (length jsonPayload))),
                     (''X-Webhook-Signature'', JStr signature),
                     (''User-Agent'', JStr ''ChatWeb5-Webhook/1.0'')]
                    (headers w),
                req_timeout = (if timeout w \<noteq> 0 then timeout w else 5000),
                req_body = jsonPayload \<rparr>
            in (case ep (length log) of
                  Status code \<Rightarrow>
                    if 200 \<le> code \<and> code < 300 then Inr code
                    else Inl (Error ''HTTP status'')
                | SocketError \<Rightarrow> Inl (Error ''socket error'')
                | NoAnswer \<Rightarrow> Inl (Error ''Request timeout''),
                log @ [req])))"




text \<open>
  \<open>this.sendWebhook(config, payload)\<close>: class \<open>WebhookManager\<close> defines
  \<open>sendWebhookRequest\<close> and no \<open>sendWebhook\<close>, so the property is \<open>undefined\<close> and
  calling it throws before anything is sent.
\<close>

definition sendWebhook ::
  "webhook \<Rightarrow> jsval \<Rightarrow> http_request list \<Rightarrow> (js_error + int) \<times> http_request list" where
  "sendWebhook config payload log =
     (Inl (TypeError ''this.sendWebhook is not a function''), log)"

text \<open>\<open>testWebhook(chatId, testData)\<close>: the boolean it resolves to, and the log.\<close>

definition testWebhook ::
  "string \<Rightarrow> webhooks \<Rightarrow> string \<Rightarrow> props \<Rightarrow> http_request list
     \<Rightarrow> bool \<times> http_request list" where
  "testWebhook now whs cid testData log =
     (case whs cid of
        None \<Rightarrow> (False, log)
      | Some config \<Rightarrow>
          if \<not> active config then (False, log)
          else
            (let payload =
               JObj (obj_set (obj_set (spread [] testData) ''test'' (JBool True))
                       ''timestamp'' (JStr now))
             in (case sendWebhook config payload log of
                   (Inr ok, log') \<Rightarrow> (True, log')
                 | (Inl err, log') \<Rightarrow> (False, log'))))"



section \<open>CredentialCryptoService\<close>

text \<open>The object \<open>encryptCredential\<close> returns.\<close>

record encrypted_credential =
  version :: string
  algorithm :: string
  encrypted :: string
  salt :: string
  iv :: string
  createdAt :: string
  userDid :: string
  checksum :: string

text \<open>\<open>deriveKey(userDid, salt)\<close>: PBKDF2 with 100000 iterations and a 32-byte key.\<close>

definition deriveKey :: "platform \<Rightarrow> string \<Rightarrow> buffer \<Rightarrow> buffer" where
  "deriveKey P did slt = pbkdf2_sha256 P did slt 100000 32"

definition calculateChecksum :: "platform \<Rightarrow> string \<Rightarrow> string" where
  "calculateChecksum P data = hex_encode (createHash_sha256 P data)"

text \<open>
  The body of the \<open>try\<close> block of \<open>encryptCredential(userDid, credential)\<close>;
  \<open>rnd_salt\<close> and \<open>rnd_iv\<close> are the bytes \<open>crypto.randomBytes\<close> draws. The cipher is
  created from the algorithm and the key alone: the drawn \<open>iv\<close> is only recorded.
\<close>

definition encryptCredential_try ::
  "platform \<Rightarrow> buffer \<Rightarrow> buffer \<Rightarrow> string \<Rightarrow> string \<Rightarrow> jsval
     \<Rightarrow> js_error + encrypted_credential" where
  "encryptCredential_try P rnd_salt rnd_iv now did credential =
     (if did = [] \<or> \<not> truthy credential
      then Inl (Error ''DID do usuario e credencial sao obrigatorios'')
      else
        (let key = deriveKey P did rnd_salt;
             plaintext = JSON_stringify P credential;
             enc = hex_encode (createCipher P ''aes-256-cbc'' key plaintext)
         in Inr \<lparr> version = ''1.0'',
                  algorithm = ''aes-256-cbc'',
                  encrypted = enc,
                  salt = hex_encode rnd_salt,
                  iv = hex_encode rnd_iv,
                  createdAt = now,
                  userDid = did,
                  checksum = calculateChecksum P enc \<rparr>))"

text \<open>The \<open>catch\<close> block replaces whatever was thrown.\<close>

definition encryptCredential ::
  "platform \<Rightarrow> buffer \<Rightarrow> buffer \<Rightarrow> string \<Rightarrow> string \<Rightarrow> jsval
     \<Rightarrow> js_error + encrypted_credential" where
  "encryptCredential P rnd_salt rnd_iv now did credential =
     (case encryptCredential_try P rnd_salt rnd_iv now did credential of
        Inl err \<Rightarrow> Inl (Error ''Falha na criptografia da credencial'')
      | Inr blob \<Rightarrow> Inr blob)"

text \<open>
  The body of the \<open>try\<close> block of \<open>decryptCredential(userDid, encryptedCredential)\<close>;
  an absent \<open>encryptedCredential\<close> is \<open>None\<close>. The stored \<open>checksum\<close> and \<open>iv\<close> are
  not read.
\<close>

definition decryptCredential_try ::
  "platform \<Rightarrow> string \<Rightarrow> encrypted_credential option \<Rightarrow> js_error + jsval" where
  "decryptCredential_try P did encryptedCredential =
     (case encryptedCredential of
        None \<Rightarrow> Inl (Error ''DID do usuario e credencial criptografada sao obrigatorios'')
      | Some blob \<Rightarrow>
          if did = []
          then Inl (Error ''DID do usuario e credencial criptografada sao obrigatorios'')
          else if userDid blob \<noteq> did
          then Inl (Error ''Credencial nao pertence ao usuario'')
          else
            (let slt = hex_decode (salt blob);
                 key = deriveKey P did slt
             in (case createDecipher P ''aes-256-cbc'' key (hex_decode (encrypted blob)) of
                   None \<Rightarrow> Inl (Error ''bad decrypt'')
                 | Some decrypted \<Rightarrow>
                     (case JSON_parse P decrypted of
                        None \<Rightarrow> Inl (SyntaxError ''Unexpected token'')
                      | Some credential \<Rightarrow> Inr credential))))"

definition decryptCredential ::
  "platform \<Rightarrow> string \<Rightarrow> encrypted_credential option \<Rightarrow> js_error + jsval" where
  "decryptCredential P did encryptedCredential =
     (case decryptCredential_try P did encryptedCredential of
        Inl err \<Rightarrow> Inl (Error ''Falha na descriptografia da credencial'')
      | Inr credential \<Rightarrow> Inr credential)"

text \<open>\<open>validateCredentialIntegrity(encryptedCredential)\<close>\<close>

record integrity_report =
  valid :: bool
  currentChecksum :: string
  originalChecksum :: string
  report_algorithm :: string
  report_createdAt :: string

definition validateCredentialIntegrity ::
  "platform \<Rightarrow> encrypted_credential \<Rightarrow> integrity_report" where
  "validateCredentialIntegrity P blob =
     (let cur = calculateChecksum P (encrypted blob);
          orig = checksum blob
      in \<lparr> valid = (cur = orig),
           currentChecksum = cur,
           originalChecksum = orig,
           report_algorithm = algorithm blob,
           report_createdAt = createdAt blob \<rparr>)"

section \<open>WebSocketServer\<close>

text \<open>
  A socket object is named by a number. \<open>clients\<close> and each \<open>clientIds\<close> are JavaScript
  sets, kept as lists in insertion order; \<open>readyState\<close> is the state the socket
  library reports for each socket.
\<close>

type_synonym ws = nat

datatype ready_state = CONNECTING | OPEN | CLOSING | CLOSED

record user_info =
  lastSeen :: string
  clientIds :: "ws list"

record server =
  clients :: "ws list"
  clientDids :: "ws \<rightharpoonup> string"
  onlineUsers :: "string \<rightharpoonup> user_info"
  webhookManager :: webhooks
  readyState :: "ws \<Rightarrow> ready_state"

definition set_add :: "'a \<Rightarrow> 'a list \<Rightarrow> 'a list" where
  "set_add x xs = (if x \<in> set xs then xs else xs @ [x])"

definition set_delete :: "'a \<Rightarrow> 'a list \<Rightarrow> 'a list" where
  "set_delete x xs = removeAll x xs"

text \<open>
  What a handler does to the outside: a text written to a socket (the object that is
  serialised), or a call of \<open>webhookManager.triggerWebhook(chatId, eventData)\<close>.
\<close>

datatype effect = WsSend ws props | TriggerWebhook jsval jsval

definition sendToClient :: "server \<Rightarrow> ws \<Rightarrow> props \<Rightarrow> effect list" where
  "sendToClient s c message = (if readyState s c = OPEN then [WsSend c message] else [])"

definition broadcast :: "server \<Rightarrow> props \<Rightarrow> effect list" where
  "broadcast s message =
     map (\<lambda>c. WsSend c message) (filter (\<lambda>c. readyState s c = OPEN) (clients s))"

definition handleConnection :: "string \<Rightarrow> server \<Rightarrow> ws \<Rightarrow> string \<Rightarrow> effect list \<times> server" where
  "handleConnection now s c clientId =
     (let s' = s\<lparr>clients := set_add c (clients s)\<rparr>
      in (sendToClient s' c
            [(''type'', JStr ''connection_established''),
             (''clientId'', JStr clientId),
             (''timestamp'', JStr now)],
          s'))"

definition setUserOnline :: "string \<Rightarrow> server \<Rightarrow> string \<Rightarrow> ws \<Rightarrow> server" where
  "setUserOnline now s did c =
     (let info = (case onlineUsers s did of
                    None \<Rightarrow> \<lparr>lastSeen = now, clientIds = []\<rparr>
                  | Some i \<Rightarrow> i)
      in s\<lparr>onlineUsers :=
             (onlineUsers s)(did \<mapsto> \<lparr>lastSeen = now, clientIds = set_add c (clientIds info)\<rparr>)\<rparr>)"

definition setUserOffline :: "server \<Rightarrow> string \<Rightarrow> ws \<Rightarrow> server" where
  "setUserOffline s did c =
     (case onlineUsers s did of
        None \<Rightarrow> s
      | Some userInfo \<Rightarrow>
          (let ids = set_delete c (clientIds userInfo)
           in if length ids = 0
              then s\<lparr>onlineUsers := (onlineUsers s)(did := None)\<rparr>
              else s\<lparr>onlineUsers := (onlineUsers s)(did \<mapsto> userInfo\<lparr>clientIds := ids\<rparr>)\<rparr>))"

definition user_online :: "string \<Rightarrow> string \<Rightarrow> props" where
  "user_online now did =
     [(''type'', JStr ''user_online''), (''did'', JStr did), (''timestamp'', JStr now)]"

definition user_offline :: "string \<Rightarrow> string \<Rightarrow> props" where
  "user_offline now did =
     [(''type'', JStr ''user_offline''), (''did'', JStr did), (''timestamp'', JStr now)]"

definition broadcastUserOnline :: "string \<Rightarrow> server \<Rightarrow> string \<Rightarrow> effect list" where
  "broadcastUserOnline now s did = broadcast s (user_online now did)"

definition broadcastUserOffline :: "string \<Rightarrow> server \<Rightarrow> string \<Rightarrow> effect list" where
  "broadcastUserOffline now s did =
     (if onlineUsers s did = None then broadcast s (user_offline now did) else [])"

text \<open>
  \<open>handleAuthentication(ws, message, clientId)\<close>, \<open>did\<close> being \<open>message.did\<close> (\<open>None\<close>
  when absent). \<open>didCommService.registerClient\<close> throws only for an absent \<open>did\<close> or
  socket and writes only the messages of its queue, which no code of the server
  fills; \<open>serverDid\<close> is a text, so its property \<open>did\<close> is \<open>undefined\<close>.
\<close>

definition handleAuthentication ::
  "string \<Rightarrow> server \<Rightarrow> ws \<Rightarrow> string option \<Rightarrow> string \<Rightarrow> effect list \<times> server" where
  "handleAuthentication now s c did clientId =
     (case did of
        None \<Rightarrow>
          (sendToClient s c
             [(''type'', JStr ''auth_error''), (''message'', JStr ''DID e obrigatorio'')], s)
      | Some d \<Rightarrow>
          if d = []
          then (sendToClient s c
                  [(''type'', JStr ''auth_error''), (''message'', JStr ''DID e obrigatorio'')], s)
          else
            (let s1 = s\<lparr>clientDids := (clientDids s)(c \<mapsto> d)\<rparr>;
                 s2 = setUserOnline now s1 d c
             in (sendToClient s2 c
                   [(''type'', JStr ''authenticated''),
                    (''did'', JStr d),
                    (''didcommEnabled'', JBool True),
                    (''serverDid'', JUndefined),
                    (''timestamp'', JStr now)]
                 @ broadcastUserOnline now s2 d,
                 s2)))"

definition not_authenticated :: props where
  "not_authenticated =
     [(''type'', JStr ''error''), (''message'', JStr ''Cliente nao autenticado'')]"










definition handleDisconnection ::
  "string \<Rightarrow> server \<Rightarrow> ws \<Rightarrow> string \<Rightarrow> effect list \<times> server" where
  "handleDisconnection now s c clientId =
     (let did = clientDids s c;
          s1 = s\<lparr>clients := set_delete c (clients s), clientDids := (clientDids s)(c := None)\<rparr>
      in (case did of
            None \<Rightarrow> ([], s1)
          | Some d \<Rightarrow>
              if d = [] then ([], s1)
              else (let s2 = setUserOffline s1 d c in (broadcastUserOffline now s2 d, s2))))"

definition error_message :: "js_error \<Rightarrow> string" where
  "error_message e =
     (case e of Error m \<Rightarrow> m | TypeError m \<Rightarrow> m | ReferenceError m \<Rightarrow> m | SyntaxError m \<Rightarrow> m)"

text \<open>
  \<open>handleWebhookRegistration(ws, message, clientId)\<close>, with \<open>cid\<close> for
  \<open>message.chatId\<close> and \<open>wh\<close> for \<open>message.webhook\<close>.
\<close>

definition handleWebhookRegistration ::
  "string \<Rightarrow> string \<Rightarrow> server \<Rightarrow> ws \<Rightarrow> string \<Rightarrow> webhook_input option
     \<Rightarrow> effect list \<times> server" where
  "handleWebhookRegistration now fresh s c cid wh =
     (case clientDids s c of
        None \<Rightarrow> (sendToClient s c not_authenticated, s)
      | Some senderDid \<Rightarrow>
          if senderDid = [] then (sendToClient s c not_authenticated, s)
          else
            (case registerWebhook now fresh (webhookManager s) cid senderDid wh of
               (Inr w, whs) \<Rightarrow>
                 (sendToClient s c
                    [(''type'', JStr ''webhook_registered''),
                     (''chatId'', JStr cid),
                     (''webhook'',
                        JObj [(''url'', JStr (url w)),
                              (''secret'', JStr (secret w)),
                              (''active'', JBool (active w))])],
                  s\<lparr>webhookManager := whs\<rparr>)
             | (Inl err, whs) \<Rightarrow>
                 (sendToClient s c
                    [(''type'', JStr ''webhook_error''),
                     (''message'', JStr (error_message err))],
                  s\<lparr>webhookManager := whs\<rparr>)))"

definition handleWebhookRemoval ::
  "server \<Rightarrow> ws \<Rightarrow> string \<Rightarrow> effect list \<times> server" where
  "handleWebhookRemoval s c cid =
     (case clientDids s c of
        None \<Rightarrow> (sendToClient s c not_authenticated, s)
      | Some senderDid \<Rightarrow>
          if senderDid = [] then (sendToClient s c not_authenticated, s)
          else
            (case removeWebhook (webhookManager s) cid senderDid of
               (Inr ok, whs) \<Rightarrow>
                 (sendToClient s c
                    [(''type'', JStr ''webhook_removed''), (''chatId'', JStr cid)],
                  s\<lparr>webhookManager := whs\<rparr>)
             | (Inl err, whs) \<Rightarrow>
                 (sendToClient s c
                    [(''type'', JStr ''webhook_error''),
                     (''message'', JStr (error_message err))],
                  s\<lparr>webhookManager := whs\<rparr>)))"

text \<open>
  \<open>handleTestWebhook(ws, message, clientId)\<close>, with \<open>cid\<close> for \<open>message.chatId\<close>
  (\<open>None\<close> when absent); the requests go to the log.
\<close>

definition handleTestWebhook ::
  "string \<Rightarrow> server \<Rightarrow> ws \<Rightarrow> string option \<Rightarrow> http_request list
     \<Rightarrow> effect list \<times> http_request list" where
  "handleTestWebhook now s c cid log =
     (let missing = [(''type'', JStr ''error''),
                     (''message'', JStr ''DID ou chatId nao fornecido'')]
      in (case clientDids s c of
            None \<Rightarrow> (sendToClient s c missing, log)
          | Some owner \<Rightarrow>
              (case cid of
                 None \<Rightarrow> (sendToClient s c missing, log)
               | Some ch \<Rightarrow>
                   if owner = [] \<or> ch = [] then (sendToClient s c missing, log)
                   else
                     (case testWebhook now (webhookManager s) ch
                             [(''type'', JStr ''test''),
                              (''chatId'', JStr ch),
                              (''message'', JStr ''Teste de webhook''),
                              (''timestamp'', JStr now)]
                             log of
                        (success, log') \<Rightarrow>
                          (sendToClient s c
                             [(''type'', JStr ''webhook_test_result''),
                              (''chatId'', JStr ch),
                              (''success'', JBool success)],
                           log')))))"

section \<open>Runs of the server\<close>

text \<open>
  What the socket library reports to the server: a new connection (the socket is
  open), an \<open>authenticate\<close> message on a socket, the close of a socket. A socket
  object is reported as a connection once, and messages and the close arrive on
  connected sockets only. \<open>idOf\<close> is the client id drawn for each socket.
\<close>

datatype event = Connect ws | Authenticate ws string | Disconnect ws

fun feasible :: "server \<Rightarrow> event \<Rightarrow> bool" where
  "feasible s (Connect c) = (c \<notin> set (clients s))"
| "feasible s (Authenticate c d) = (c \<in> set (clients s))"
| "feasible s (Disconnect c) = (c \<in> set (clients s))"

fun step :: "string \<Rightarrow> (ws \<Rightarrow> string) \<Rightarrow> server \<Rightarrow> event \<Rightarrow> effect list \<times> server" where
  "step now idOf s (Connect c) =
     handleConnection now (s\<lparr>readyState := (readyState s)(c := OPEN)\<rparr>) c (idOf c)"
| "step now idOf s (Authenticate c d) = handleAuthentication now s c (Some d) (idOf c)"
| "step now idOf s (Disconnect c) =
     handleDisconnection now (s\<lparr>readyState := (readyState s)(c := CLOSED)\<rparr>) c (idOf c)"

fun run ::
  "string \<Rightarrow> (ws \<Rightarrow> string) \<Rightarrow> server \<Rightarrow> event list \<Rightarrow> (effect list \<times> server) option" where
  "run now idOf s [] = Some ([], s)"
| "run now idOf s (e # es) =
     (if feasible s e
      then (case step now idOf s e of
              (fx, s') \<Rightarrow>
                (case run now idOf s' es of
                   None \<Rightarrow> None
                 | Some (fx', s'') \<Rightarrow> Some (fx @ fx', s'')))
      else None)"

text \<open>The server after its constructor.\<close>

definition new_server :: server where
  "new_server =
     \<lparr> clients = [],
       clientDids = Map.empty,
       onlineUsers = Map.empty,
       webhookManager = Map.empty,
       readyState = (\<lambda>c. CONNECTING) \<rparr>"

section \<open>A toy platform\<close>

text \<open>
  An instance of the platform on which everything evaluates, used to apply the
  theorems at concrete inputs: the serialiser knows the empty object and texts, the
  digests and the cipher copy their input as bytes.
\<close>

definition byte_of_char :: "char \<Rightarrow> 8 word" where
  "byte_of_char c = of_nat (of_char c)"

definition char_of_byte :: "8 word \<Rightarrow> char" where
  "char_of_byte b = char_of (unat b)"

definition toy_stringify :: "jsval \<Rightarrow> string" where
  "toy_stringify v = (case v of JObj [] \<Rightarrow> ''{}'' | JStr s \<Rightarrow> s | _ \<Rightarrow> ''null'')"

definition toy_parse :: "string \<Rightarrow> jsval option" where
  "toy_parse t = (if t = ''{}'' then Some (JObj []) else None)"

definition toy_platform :: platform where
  "toy_platform =
     \<lparr> JSON_stringify = toy_stringify,
       JSON_parse = toy_parse,
       createHmac_sha256 = (\<lambda>key data. map byte_of_char (key @ data)),
       URL_parses = (\<lambda>u. u \<noteq> []),
       pbkdf2_sha256 = (\<lambda>password slt iterations keylen. take keylen (slt @ map byte_of_char password)),
       createHash_sha256 = (\<lambda>data. map byte_of_char data),
       createCipher = (\<lambda>alg key plaintext. map byte_of_char plaintext),
       createDecipher = (\<lambda>alg key ciphertext. Some (map char_of_byte ciphertext)) \<rparr>"

section \<open>Example states\<close>

text \<open>
  A webhook for chat \<open>c1\<close> owned by \<open>did:a\<close>, and a server with three open sockets:
  1 authenticated as \<open>did:a\<close>, 2 as \<open>did:b\<close>, 3 not authenticated.
\<close>

definition example_webhook :: webhook where
  "example_webhook =
     \<lparr> url = ''http://hooks.example/c1'',
       events = [],
       headers = [],
       chatId = ''c1'',
       ownerDid = ''did:a'',
       registeredAt = ''t0'',
       secret = ''s3cr3t'',
       active = True,
       retryAttempts = 3,
       timeout = 5000 \<rparr>"

definition example_input :: webhook_input where
  "example_input =
     \<lparr> in_url = ''http://other.example/hook'',
       in_events = [],
       in_secret = Some ''mine'',
       in_retryAttempts = None,
       in_timeout = None,
       in_headers = [] \<rparr>"

definition example_server :: server where
  "example_server =
     \<lparr> clients = [1, 2, 3],
       clientDids = [1 \<mapsto> ''did:a'', 2 \<mapsto> ''did:b''],
       onlineUsers =
         [''did:a'' \<mapsto> \<lparr>lastSeen = ''t0'', clientIds = [1]\<rparr>,
          ''did:b'' \<mapsto> \<lparr>lastSeen = ''t0'', clientIds = [2]\<rparr>],
       webhookManager = [''c1'' \<mapsto> example_webhook],
       readyState = (\<lambda>c. if c \<in> {1, 2, 3} then OPEN else CONNECTING) \<rparr>"


definition accepting_endpoint :: endpoint where
  "accepting_endpoint n = Status 200"

definition example_test :: props where
  "example_test =
     [(''type'', JStr ''test''), (''chatId'', JStr ''c1''),
      (''message'', JStr ''Teste de webhook''), (''timestamp'', JStr ''t1'')]"


text \<open>
  The blob the toy platform produces for the empty object under \<open>did:a\<close> with salt
  bytes 1, 2 and iv bytes 3, 4.
\<close>

definition example_blob :: encrypted_credential where
  "example_blob =
     \<lparr> version = ''1.0'', algorithm = ''aes-256-cbc'', encrypted = ''7b7d'',
       salt = ''0102'', iv = ''0304'', createdAt = ''t0'', userDid = ''did:a'',
       checksum = ''37623764'' \<rparr>"

section \<open>Properties of requests\<close>




section \<open>Properties of what a handler does\<close>



fun is_user_offline :: "effect \<Rightarrow> bool" where
  "is_user_offline (WsSend c m) = (obj_get m ''type'' = JStr ''user_offline'')"
| "is_user_offline (TriggerWebhook cid ev) = False"

text \<open>
  The connections that are open under an identity: the connected sockets authenticated
  as it. \<open>online\<close> is \<open>onlineUsers.has(did)\<close>.
\<close>

definition sockets_of :: "server \<Rightarrow> string \<Rightarrow> ws list" where
  "sockets_of s d = filter (\<lambda>c. clientDids s c = Some d) (clients s)"

definition online :: "server \<Rightarrow> string \<Rightarrow> bool" where
  "online s d = (onlineUsers s d \<noteq> None)"

text \<open>
  A run in which no socket changes its identity: each \<open>authenticate\<close> arrives on a
  socket that is not yet authenticated or names the identity the socket already has.
\<close>

fun keeps_identity :: "server \<Rightarrow> event \<Rightarrow> bool" where
  "keeps_identity s (Authenticate c d) = (clientDids s c = None \<or> clientDids s c = Some d)"
| "keeps_identity s (Connect c) = True"
| "keeps_identity s (Disconnect c) = True"

fun steady :: "string \<Rightarrow> (ws \<Rightarrow> string) \<Rightarrow> server \<Rightarrow> event list \<Rightarrow> bool" where
  "steady now idOf s [] = True"
| "steady now idOf s (e # es) =
     (keeps_identity s e \<and> steady now idOf (snd (step now idOf s e)) es)"

text \<open>A run on connections that share the identity \<open>d\<close>: every \<open>authenticate\<close> names it.\<close>

fun names_only :: "string \<Rightarrow> event \<Rightarrow> bool" where
  "names_only d (Authenticate c d') = (d' = d)"
| "names_only d (Connect c) = True"
| "names_only d (Disconnect c) = True"







definition example_ids :: "ws \<Rightarrow> string" where
  "example_ids c = ''id''"

section \<open>Hexadecimal text decodes to the bytes it encodes\<close>




section \<open>The example server is a state of a run\<close>

text \<open>
  Three sockets connect, two of them authenticate, and \<open>did:a\<close> registers the
  webhook of chat \<open>c1\<close>.
\<close>

lemma example_server_reachable:
  "\<exists>fx s. run ''t0'' example_ids new_server
             [Connect 1, Authenticate 1 ''did:a'', Connect 2, Authenticate 2 ''did:b'', Connect 3]
           = Some (fx, s)
         \<and> snd (handleWebhookRegistration ''t0'' ''fresh'' s 1 ''c1''
                  (Some \<lparr> in_url = ''http://hooks.example/c1'', in_events = [],
                          in_secret = Some ''s3cr3t'', in_retryAttempts = Some 3,
                          in_timeout = None, in_headers = [] \<rparr>))
           = example_server"
  by (auto simp: new_server_def example_server_def example_webhook_def handleConnection_def
        handleAuthentication_def setUserOnline_def set_add_def Let_def fun_eq_iff
        handleWebhookRegistration_def registerWebhook_def)

section \<open>WebhookManager: registration, removal, test\<close>

text \<open>
  C8. For a chat whose webhook configuration is owned by identity \<open>a\<close>, a
  \<open>remove_webhook\<close> request of an authenticated identity \<open>b\<close> other than \<open>a\<close> fails
  with the owner-only error, which the handler reports as \<open>webhook_error\<close>, and leaves
  the table of configurations and the server as they were; a request of \<open>a\<close> deletes
  the configuration and is answered \<open>webhook_removed\<close>.
\<close>

theorem removeWebhook_only_by_owner:
  assumes "webhookManager s cid = Some w" and "ownerDid w = a"
  shows "(b \<noteq> a \<longrightarrow>
            removeWebhook (webhookManager s) cid b
              = (Inl (Error ''Apenas o dono da sala pode remover o webhook''), webhookManager s))
       \<and> removeWebhook (webhookManager s) cid a = (Inr True, (webhookManager s)(cid := None))
       \<and> (clientDids s c = Some b \<and> b \<noteq> [] \<and> b \<noteq> a \<longrightarrow>
            handleWebhookRemoval s c cid
              = (sendToClient s c
                   [(''type'', JStr ''webhook_error''),
                    (''message'', JStr ''Apenas o dono da sala pode remover o webhook'')],
                 s))
       \<and> (clientDids s c = Some a \<and> a \<noteq> [] \<longrightarrow>
            handleWebhookRemoval s c cid
              = (sendToClient s c [(''type'', JStr ''webhook_removed''), (''chatId'', JStr cid)],
                 s\<lparr>webhookManager := (webhookManager s)(cid := None)\<rparr>))"
  using assms
  by (simp add: removeWebhook_def handleWebhookRemoval_def error_message_def)

theorem removeWebhook_only_by_owner_witness:
  "webhookManager example_server ''c1'' = Some example_webhook
   \<and> ownerDid example_webhook = ''did:a''
   \<and> clientDids example_server 2 = Some ''did:b''
   \<and> clientDids example_server 1 = Some ''did:a''
   \<and> ''did:b'' \<noteq> ''did:a''
   \<and> removeWebhook (webhookManager example_server) ''c1'' ''did:b''
         = (Inl (Error ''Apenas o dono da sala pode remover o webhook''),
            webhookManager example_server)
   \<and> handleWebhookRemoval example_server 2 ''c1''
         = ([WsSend 2 [(''type'', JStr ''webhook_error''),
                      (''message'', JStr ''Apenas o dono da sala pode remover o webhook'')]],
            example_server)
   \<and> removeWebhook (webhookManager example_server) ''c1'' ''did:a''
         = (Inr True, (webhookManager example_server)(''c1'' := None))
   \<and> fst (handleWebhookRemoval example_server 1 ''c1'')
         = [WsSend 1 [(''type'', JStr ''webhook_removed''), (''chatId'', JStr ''c1'')]]
   \<and> webhookManager (snd (handleWebhookRemoval example_server 1 ''c1'')) ''c1'' = None"
  using removeWebhook_only_by_owner
          [of example_server "''c1''" example_webhook "''did:a''" "''did:b''" 2]
        removeWebhook_only_by_owner
          [of example_server "''c1''" example_webhook "''did:a''" "''did:a''" 1]
  by (simp add: example_server_def example_webhook_def sendToClient_def)

text \<open>
  C2. The claim asks that \<open>register_webhook\<close> for a chat configured by another
  identity fail with Unauthorized and leave the configuration alone. Evaluated on the
  example server, where chat \<open>c1\<close> belongs to \<open>did:a\<close>: the guard
  \<open>canConfigureWebhook\<close> would refuse \<open>did:b\<close>, but \<open>registerWebhook\<close> never consults
  it; the request of \<open>did:b\<close> returns a configuration, is answered
  \<open>webhook_registered\<close>, and the stored owner becomes \<open>did:b\<close>.
\<close>

theorem registerWebhook_by_other_identity:
  "canConfigureWebhook (webhookManager example_server) ''c1'' ''did:b'' = False
   \<and> fst (registerWebhook ''t1'' ''fresh'' (webhookManager example_server) ''c1'' ''did:b''
            (Some example_input))
       = Inr \<lparr> url = ''http://other.example/hook'', events = [], headers = [],
               chatId = ''c1'', ownerDid = ''did:b'', registeredAt = ''t1'',
               secret = ''mine'', active = True, retryAttempts = 3, timeout = 5000 \<rparr>
   \<and> map_option ownerDid
         (snd (registerWebhook ''t1'' ''fresh'' (webhookManager example_server) ''c1'' ''did:b''
                 (Some example_input)) ''c1'')
       = Some ''did:b''
   \<and> fst (handleWebhookRegistration ''t1'' ''fresh'' example_server 2 ''c1'' (Some example_input))
       = [WsSend 2 [(''type'', JStr ''webhook_registered''),
                    (''chatId'', JStr ''c1''),
                    (''webhook'', JObj [(''url'', JStr ''http://other.example/hook''),
                                        (''secret'', JStr ''mine''),
                                        (''active'', JBool True)])]]
   \<and> map_option ownerDid
         (webhookManager
            (snd (handleWebhookRegistration ''t1'' ''fresh'' example_server 2 ''c1''
                    (Some example_input))) ''c1'')
       = Some ''did:b''"
  by (simp add: canConfigureWebhook_def registerWebhook_def handleWebhookRegistration_def
        example_server_def example_webhook_def example_input_def sendToClient_def Let_def)

text \<open>
  \<open>testWebhook\<close> calls the method \<open>sendWebhook\<close>, which the class does not have:
  whatever the table, the chat and the endpoint, it returns false and issues no
  request.
\<close>

lemma testWebhook_false: "testWebhook now whs cid testData log = (False, log)"
  by (simp add: testWebhook_def sendWebhook_def split: option.split)

text \<open>
  C3. The claim asks that the test operation return true exactly when the endpoint
  answers 2xx. Evaluated for chat \<open>c1\<close> of the example server, whose configuration
  is active, against an endpoint that answers 200 to every request: the delivery
  path \<open>sendWebhookRequest\<close> succeeds on the test payload, but \<open>testWebhook\<close> returns
  false without a request, and the handler reports \<open>success: false\<close>.
\<close>

theorem testWebhook_on_accepting_endpoint:
  "webhookManager example_server ''c1'' = Some example_webhook
   \<and> active example_webhook
   \<and> fst (sendWebhookRequest toy_platform accepting_endpoint example_webhook
            (JObj (obj_set (obj_set (spread [] example_test) ''test'' (JBool True))
                     ''timestamp'' (JStr ''t1'')))
            [])
       = Inr 200
   \<and> testWebhook ''t1'' (webhookManager example_server) ''c1'' example_test [] = (False, [])
   \<and> handleTestWebhook ''t1'' example_server 1 (Some ''c1'') []
       = ([WsSend 1 [(''type'', JStr ''webhook_test_result''),
                     (''chatId'', JStr ''c1''),
                     (''success'', JBool False)]],
          [])"
  by (simp add: testWebhook_false handleTestWebhook_def sendWebhookRequest_def
        sendToClient_def example_server_def example_webhook_def toy_platform_def
        accepting_endpoint_def Let_def)

section \<open>WebhookManager: delivery and retry\<close>








section \<open>CredentialCryptoService: encryption and decryption\<close>




text \<open>
  The guard at the head of \<open>encryptCredential\<close>: for an empty DID, which is no
  identity, nothing is encrypted.
\<close>

lemma encrypt_refuses_empty_did:
  "encryptCredential P rnd_salt rnd_iv now [] credential
     = Inl (Error ''Falha na criptografia da credencial'')"
  by (simp add: encryptCredential_def encryptCredential_try_def)

text \<open>Whatever makes \<open>decryptCredential\<close> fail, the caller sees one and the same error.\<close>

lemma decrypt_failure_generic:
  "decryptCredential P did blob = Inl err \<Longrightarrow> err = Error ''Falha na descriptografia da credencial''"
  by (auto simp: decryptCredential_def split: sum.splits)

lemma example_blob_encrypted:
  "encryptCredential toy_platform [1, 2] [3, 4] ''t0'' ''did:a'' (JObj []) = Inr example_blob"
  by (simp add: encryptCredential_def encryptCredential_try_def toy_platform_def example_blob_def
        Let_def toy_stringify_def calculateChecksum_def byte_of_char_def hex_digit_def)

lemma toy_chars:
  "char_of_byte 123 = CHR ''{''" "char_of_byte 124 = CHR ''|''" "char_of_byte 125 = CHR ''}''"
  by code_simp+

text \<open>
  C10, as amended. For a blob produced by \<open>encryptCredential\<close> for an identity:
  decrypting it as any other identity fails with the generic decryption error;
  \<open>decryptCredential\<close> does not read the stored checksum (its result is the same
  whatever the checksum field holds); whenever decrypting a copy with changed
  ciphertext fails, it fails with that same generic error; and the checksum is compared
  by \<open>validateCredentialIntegrity\<close> alone, which accepts the blob and accepts a copy
  with changed ciphertext exactly when the checksums of the two ciphertexts agree.
\<close>

theorem decrypt_failures_and_integrity:
  assumes "encryptCredential P rnd_salt rnd_iv now did credential = Inr blob"
    and "other \<noteq> did"
  shows "decryptCredential P other (Some blob)
           = Inl (Error ''Falha na descriptografia da credencial'')
       \<and> decryptCredential P u (Some (blob\<lparr>checksum := x\<rparr>)) = decryptCredential P u (Some blob)
       \<and> (\<forall>err. decryptCredential P did (Some (blob\<lparr>encrypted := enc'\<rparr>)) = Inl err
                \<longrightarrow> err = Error ''Falha na descriptografia da credencial'')
       \<and> valid (validateCredentialIntegrity P blob)
       \<and> valid (validateCredentialIntegrity P (blob\<lparr>encrypted := enc'\<rparr>))
           = (calculateChecksum P enc' = calculateChecksum P (encrypted blob))"
proof -
  have owner: "userDid blob = did" and sum: "checksum blob = calculateChecksum P (encrypted blob)"
    using assms(1)
    by (auto simp: encryptCredential_def encryptCredential_try_def Let_def split: if_splits)
  have "decryptCredential P other (Some blob)
          = Inl (Error ''Falha na descriptografia da credencial'')"
    using owner assms(2) by (simp add: decryptCredential_def decryptCredential_try_def)
  moreover have "decryptCredential P u (Some (blob\<lparr>checksum := x\<rparr>))
                   = decryptCredential P u (Some blob)"
    by (simp add: decryptCredential_def decryptCredential_try_def)
  moreover have "valid (validateCredentialIntegrity P blob)"
    using sum by (simp add: validateCredentialIntegrity_def Let_def)
  moreover have "valid (validateCredentialIntegrity P (blob\<lparr>encrypted := enc'\<rparr>))
                   = (calculateChecksum P enc' = calculateChecksum P (encrypted blob))"
    using sum by (simp add: validateCredentialIntegrity_def Let_def)
  ultimately show ?thesis
    using decrypt_failure_generic by blast
qed

theorem decrypt_failures_and_integrity_witness:
  "encryptCredential toy_platform [1, 2] [3, 4] ''t0'' ''did:a'' (JObj []) = Inr example_blob
   \<and> ''did:b'' \<noteq> ''did:a''
   \<and> decryptCredential toy_platform ''did:b'' (Some example_blob)
       = Inl (Error ''Falha na descriptografia da credencial'')
   \<and> decryptCredential toy_platform ''did:a'' (Some (example_blob\<lparr>checksum := ''00''\<rparr>))
       = decryptCredential toy_platform ''did:a'' (Some example_blob)
   \<and> valid (validateCredentialIntegrity toy_platform example_blob)
   \<and> \<not> valid (validateCredentialIntegrity toy_platform (example_blob\<lparr>encrypted := ''7b7c''\<rparr>))"
  using decrypt_failures_and_integrity
          [OF example_blob_encrypted, of "''did:b''" "''did:a''" "''00''" "''7b7c''"]
        example_blob_encrypted
  by (simp add: calculateChecksum_def toy_platform_def example_blob_def byte_of_char_def
        hex_digit_def)

text \<open>
  C10 as stated fails. On the example blob: decrypting as \<open>did:b\<close> and decrypting a
  copy whose ciphertext text has one character changed (\<open>7b7c\<close>) end in the same error
  value, so the two failures cannot be told apart; and a copy with one character
  changed to upper case (\<open>7B7d\<close>), which the integrity validation rejects, decrypts
  without any error, since decryption never looks at the checksum.
\<close>

theorem decrypt_errors_indistinguishable:
  "encryptCredential toy_platform [1, 2] [3, 4] ''t0'' ''did:a'' (JObj []) = Inr example_blob
   \<and> decryptCredential toy_platform ''did:b'' (Some example_blob)
       = Inl (Error ''Falha na descriptografia da credencial'')
   \<and> decryptCredential toy_platform ''did:a'' (Some (example_blob\<lparr>encrypted := ''7b7c''\<rparr>))
       = Inl (Error ''Falha na descriptografia da credencial'')
   \<and> decryptCredential toy_platform ''did:a'' (Some (example_blob\<lparr>encrypted := ''7B7d''\<rparr>))
       = Inr (JObj [])
   \<and> \<not> valid (validateCredentialIntegrity toy_platform (example_blob\<lparr>encrypted := ''7B7d''\<rparr>))"
proof -
  have "decryptCredential toy_platform ''did:b'' (Some example_blob)
          = Inl (Error ''Falha na descriptografia da credencial'')"
    by (simp add: decryptCredential_def decryptCredential_try_def example_blob_def)
  moreover have "decryptCredential toy_platform ''did:a''
                   (Some (example_blob\<lparr>encrypted := ''7b7c''\<rparr>))
                   = Inl (Error ''Falha na descriptografia da credencial'')"
    by (simp add: decryptCredential_def decryptCredential_try_def toy_platform_def
          example_blob_def toy_parse_def hex_val_def toy_chars Let_def)
  moreover have "decryptCredential toy_platform ''did:a''
                   (Some (example_blob\<lparr>encrypted := ''7B7d''\<rparr>))
                   = Inr (JObj [])"
    by (simp add: decryptCredential_def decryptCredential_try_def toy_platform_def
          example_blob_def toy_parse_def hex_val_def toy_chars Let_def)
  moreover have "\<not> valid (validateCredentialIntegrity toy_platform
                            (example_blob\<lparr>encrypted := ''7B7d''\<rparr>))"
    by (simp add: validateCredentialIntegrity_def calculateChecksum_def toy_platform_def
          example_blob_def byte_of_char_def hex_digit_def Let_def)
  ultimately show ?thesis
    using example_blob_encrypted by simp
qed

section \<open>WebSocketServer: relaying messages\<close>










section \<open>WebSocketServer: presence\<close>
















text \<open>A run on connections that share one identity keeps identities.\<close>

lemma shared_identity_steady:
  assumes "list_all (names_only d) es" and "\<forall>c e. clientDids s c = Some e \<longrightarrow> e = d"
  shows "steady now idOf s es"
  using assms
proof (induction es arbitrary: s)
  case Nil
  show ?case
    by simp
next
  case (Cons ev es)
  have keep: "keeps_identity s ev"
    using Cons.prems by (cases ev) (auto, metis option.exhaust)
  have "\<forall>c e. clientDids (snd (step now idOf s ev)) c = Some e \<longrightarrow> e = d"
    using Cons.prems
    by (cases ev)
       (auto simp: handleConnection_def handleAuthentication_def handleDisconnection_def
          setUserOnline_def setUserOffline_def Let_def split: option.splits if_splits)
  with Cons.IH Cons.prems(1) keep show ?case
    by simp
qed





text \<open>
  The condition on identities is needed: when a socket authenticates as \<open>did:a\<close>, then
  as \<open>did:b\<close>, and closes, \<open>did:a\<close> stays online with no connection left and no
  \<open>user_offline\<close> is ever broadcast for it.
\<close>

lemma identity_change_leaves_entry:
  "\<exists>fx s. run ''t1'' example_ids new_server
             [Connect 1, Authenticate 1 ''did:a'', Authenticate 1 ''did:b'', Disconnect 1]
           = Some (fx, s)
         \<and> clients s = [] \<and> sockets_of s ''did:a'' = [] \<and> online s ''did:a''
         \<and> \<not> list_ex is_user_offline fx"
  by (simp add: new_server_def handleConnection_def handleAuthentication_def
        handleDisconnection_def setUserOnline_def setUserOffline_def set_add_def set_delete_def
        broadcastUserOnline_def broadcastUserOffline_def broadcast_def sendToClient_def
        user_online_def sockets_of_def online_def Let_def)

end
